theory Spec2Isabelle
  imports Main "HOL-Library.AList" "HOL-Library.Char_ord" "HOL-Library.List_Lexorder"
begin
section \<open>Python values, exceptions and the metadata file\<close>

text \<open>
  A Python \<open>str\<close> is modelled as a \<open>string\<close> of ASCII characters; a stored field
  value is either \<open>None\<close> (JSON \<open>null\<close>) or a \<open>str\<close>; a \<open>dict\<close> with string keys is
  an association list in insertion order (\<open>map_of\<close> is the lookup).
\<close>

datatype pyval = PNone | PStr string

type_synonym pydict = "(string \<times> pyval) list"

datatype exn =
    ValueError | KeyError | OverflowError | AssertionError | AttributeError
  | TypeError | ValidationError | OSError

definition is_ascii :: "string \<Rightarrow> bool" where
  "is_ascii s \<longleftrightarrow> list_all (\<lambda>c. (of_char c :: nat) < 128) s"

text \<open>\<open>d.get(k)\<close> and \<open>d.get(k, default)\<close>.\<close>

definition dict_get :: "pydict \<Rightarrow> string \<Rightarrow> pyval" where
  "dict_get d k = (case map_of d k of None \<Rightarrow> PNone | Some v \<Rightarrow> v)"

definition dict_get_default :: "pydict \<Rightarrow> string \<Rightarrow> pyval \<Rightarrow> pyval" where
  "dict_get_default d k dflt = (case map_of d k of None \<Rightarrow> dflt | Some v \<Rightarrow> v)"

text \<open>Truthiness of a field value: \<open>None\<close> and \<open>""\<close> are falsy.\<close>

fun truthy :: "pyval \<Rightarrow> bool" where
  "truthy PNone = False"
| "truthy (PStr s) = (s \<noteq> [])"

text \<open>
  The metadata file \<open>uploads/metadata/documents.json\<close>: \<open>content\<close> is its parsed content
  (\<open>None\<close> when it is missing or does not parse), \<open>outcomes\<close> says how each coming call
  of \<open>save_documents\<close> ends (an empty list: every call succeeds), and \<open>attempts\<close> counts
  these calls. \<open>save_documents\<close> opens the file with mode \<open>"w"\<close>, which truncates it, and
  then dumps the list; so a call either writes the list, or fails in \<open>open\<close> and leaves
  the file as it was, or fails during the dump and leaves a file that is empty or cut
  short and no longer parses.
\<close>

datatype write_outcome = Written | OpenFails | DumpFails

record fs =
  content :: "pydict list option"
  outcomes :: "write_outcome list"
  attempts :: nat

text \<open>\<open>load_documents\<close> returns \<open>[]\<close> for a file that is missing or does not parse.\<close>

definition load_documents :: "fs \<Rightarrow> pydict list" where
  "load_documents st = (case content st of None \<Rightarrow> [] | Some ds \<Rightarrow> ds)"

text \<open>
  One call of \<open>save_documents\<close>: the exception of a failing call goes to the caller, and
  the file is left as the kind of failure leaves it.
\<close>

definition save_documents :: "pydict list \<Rightarrow> fs \<Rightarrow> (exn + unit) \<times> fs" where
  "save_documents documents st =
     (case outcomes st of
        [] \<Rightarrow> (Inr (), st\<lparr>content := Some documents, attempts := Suc (attempts st)\<rparr>)
      | Written # rest \<Rightarrow>
          (Inr (), st\<lparr>content := Some documents, outcomes := rest, attempts := Suc (attempts st)\<rparr>)
      | OpenFails # rest \<Rightarrow>
          (Inl OSError, st\<lparr>outcomes := rest, attempts := Suc (attempts st)\<rparr>)
      | DumpFails # rest \<Rightarrow>
          (Inl OSError, st\<lparr>content := None, outcomes := rest, attempts := Suc (attempts st)\<rparr>))"

section \<open>Document lookup (\<open>main.py\<close>)\<close>

text \<open>
  \<open>re.sub(r"[^a-zA-Z0-9-]", "", document_id)\<close> keeps exactly the ASCII letters, digits
  and the hyphen; \<open>str.upper\<close> and \<open>str.lower\<close> on ASCII text change the letters only.
\<close>

definition is_id_char :: "char \<Rightarrow> bool" where
  "is_id_char c \<longleftrightarrow>
     (let n = (of_char c :: nat)
      in (97 \<le> n \<and> n \<le> 122) \<or> (65 \<le> n \<and> n \<le> 90) \<or> (48 \<le> n \<and> n \<le> 57) \<or> n = 45)"

definition upper_char :: "char \<Rightarrow> char" where
  "upper_char c = (let n = (of_char c :: nat) in if 97 \<le> n \<and> n \<le> 122 then char_of (n - 32) else c)"

definition lower_char :: "char \<Rightarrow> char" where
  "lower_char c = (let n = (of_char c :: nat) in if 65 \<le> n \<and> n \<le> 90 then char_of (n + 32) else c)"

definition py_upper :: "string \<Rightarrow> string" where
  "py_upper s = map upper_char s"

definition py_lower :: "string \<Rightarrow> string" where
  "py_lower s = map lower_char s"

text \<open>The loop of \<open>find_document\<close> over the loaded list; \<open>None.upper()\<close> raises.\<close>

fun find_in :: "string \<Rightarrow> string \<Rightarrow> pydict list \<Rightarrow> exn + pydict option" where
  "find_in document_id clean_id [] = Inr None"
| "find_in document_id clean_id (document # rest) =
     (case dict_get_default document ''id'' (PStr []) of
        PNone \<Rightarrow> Inl AttributeError
      | PStr doc_id \<Rightarrow>
          if doc_id = document_id \<or> py_upper doc_id = clean_id then Inr (Some document)
          else find_in document_id clean_id rest)"

definition find_document :: "fs \<Rightarrow> string \<Rightarrow> exn + pydict option" where
  "find_document st document_id =
     find_in document_id (py_upper (filter is_id_char document_id)) (load_documents st)"

text \<open>
  What the lookup is compared with: the stored id of a record (\<open>""\<close> when the record has
  none), equality up to the case of ASCII letters, and the two matching rules.
\<close>

definition stored_id :: "pydict \<Rightarrow> string" where
  "stored_id d = (case map_of d ''id'' of Some (PStr i) \<Rightarrow> i | _ \<Rightarrow> [])"

definition same_ignoring_case :: "string \<Rightarrow> string \<Rightarrow> bool" where
  "same_ignoring_case a b \<longleftrightarrow> py_lower a = py_lower b"

definition id_matches :: "string \<Rightarrow> pydict \<Rightarrow> bool" where
  "id_matches q d \<longleftrightarrow>
     stored_id d = q \<or> same_ignoring_case (stored_id d) (filter is_id_char q)"

definition ids_are_text :: "pydict list \<Rightarrow> bool" where
  "ids_are_text ds \<longleftrightarrow>
     list_all (\<lambda>d. case map_of d ''id'' of
                     None \<Rightarrow> True | Some PNone \<Rightarrow> False | Some (PStr i) \<Rightarrow> is_ascii i) ds"

text \<open>A small metadata file used to run the lookup on concrete queries.\<close>

definition example_document :: pydict where
  "example_document =
     [(''id'', PStr ''INV-1234-5678''), (''file_hash'', PStr ''ab''), (''zk_commitment'', PStr ''02'')]"

definition example_fs :: fs where
  "example_fs =
     \<lparr>content = Some [[(''id'', PStr ''INV-0000-0001'')], example_document],
      outcomes = [], attempts = 0\<rparr>"

section \<open>Library functions taken as parameters\<close>

text \<open>
  The hash functions, the QR renderer, the clock and the process environment are not
  code of the repository. They are the fields of \<open>lib\<close>, and every theorem below holds
  for all of them: \<open>sha256 b\<close> is \<open>hashlib.sha256(b).digest()\<close>, \<open>hmac_sha256 k m\<close> is
  \<open>hmac.new(k, m, hashlib.sha256).digest()\<close> (byte strings are \<open>string\<close>s),
  \<open>qr_png s\<close> is the base64 text of the PNG that \<open>qrcode\<close> renders for \<open>s\<close> (it raises when
  \<open>s\<close> does not fit a QR code), \<open>utcnow\<close> is \<open>isoformat_utc(datetime.utcnow())\<close> and
  \<open>signing_secret\<close> is \<open>os.getenv("DOCUMENT_SIGNING_SECRET", "dev-signing-secret")\<close>.
\<close>

record lib =
  sha256 :: "string \<Rightarrow> string"
  hmac_sha256 :: "string \<Rightarrow> string \<Rightarrow> string"
  qr_png :: "string \<Rightarrow> exn + string"
  utcnow :: string
  signing_secret :: string

definition hexdigit :: "nat \<Rightarrow> char" where
  "hexdigit n = ''0123456789abcdef'' ! (n mod 16)"

text \<open>\<open>bytes.hex()\<close>, and so \<open>hexdigest()\<close> of a digest.\<close>

definition hex_of_bytes :: "string \<Rightarrow> string" where
  "hex_of_bytes b = concat (map (\<lambda>c. [hexdigit (of_char c div 16), hexdigit (of_char c mod 16)]) b)"

text \<open>\<open>str.encode("utf-8")\<close>: ASCII text is its own encoding.\<close>

definition encode_utf8 :: "string \<Rightarrow> string" where
  "encode_utf8 s = s"

section \<open>Integrity signer (\<open>services/signature.py\<close>)\<close>

text \<open>
  \<open>repr\<close> of a \<open>str\<close>: single quotes unless the text has a single quote and no double
  quote; the quote and the backslash are escaped, and so are the control characters.
\<close>

definition repr_quote :: "string \<Rightarrow> char" where
  "repr_quote s = (if CHR 0x27 \<in> set s \<and> CHR 0x22 \<notin> set s then CHR 0x22 else CHR 0x27)"

definition repr_char :: "char \<Rightarrow> char \<Rightarrow> string" where
  "repr_char q c =
     (let n = (of_char c :: nat) in
      if c = q \<or> c = CHR 0x5C then [CHR 0x5C, c]
      else if n = 9 then [CHR 0x5C, CHR ''t'']
      else if n = 10 then [CHR 0x5C, CHR ''n'']
      else if n = 13 then [CHR 0x5C, CHR ''r'']
      else if n < 32 \<or> n = 127 then [CHR 0x5C, CHR ''x'', hexdigit (n div 16), hexdigit (n mod 16)]
      else [c])"

definition repr_str :: "string \<Rightarrow> string" where
  "repr_str s = (let q = repr_quote s in [q] @ concat (map (repr_char q) s) @ [q])"

fun repr_val :: "pyval \<Rightarrow> string" where
  "repr_val PNone = ''None''"
| "repr_val (PStr s) = repr_str s"

definition repr_item :: "string \<times> pyval \<Rightarrow> string" where
  "repr_item kv = ''('' @ repr_str (fst kv) @ '', '' @ repr_val (snd kv) @ '')''"

fun join :: "string \<Rightarrow> string list \<Rightarrow> string" where
  "join sep [] = []"
| "join sep [x] = x"
| "join sep (x # y # ys) = x @ sep @ join sep (y # ys)"

definition repr_items :: "pydict \<Rightarrow> string" where
  "repr_items items = ''['' @ join '', '' (map repr_item items) @ '']''"

text \<open>
  \<open>sorted(payload.items())\<close>: the keys of a \<open>dict\<close> are distinct, so the pairs are ordered
  by their keys alone, and strings compare code point by code point.
\<close>

definition sorted_items :: "pydict \<Rightarrow> pydict" where
  "sorted_items payload = sort_key fst payload"

definition sign_payload :: "lib \<Rightarrow> pydict \<Rightarrow> string" where
  "sign_payload L payload =
     hex_of_bytes (hmac_sha256 L (encode_utf8 (signing_secret L))
                     (encode_utf8 (repr_items (sorted_items payload))))"

text \<open>\<open>hmac.compare_digest\<close> on two \<open>str\<close> raises \<open>TypeError\<close> unless both are ASCII.\<close>

definition compare_digest :: "string \<Rightarrow> string \<Rightarrow> exn + bool" where
  "compare_digest a b = (if is_ascii a \<and> is_ascii b then Inr (a = b) else Inl TypeError)"

definition verify_signature :: "lib \<Rightarrow> pydict \<Rightarrow> string \<Rightarrow> exn + bool" where
  "verify_signature L payload signature = compare_digest (sign_payload L payload) signature"

section \<open>Payload codec (\<open>services/qr_payload.py\<close>)\<close>

text \<open>
  The values \<open>json.dumps\<close> and \<open>json.loads\<close> exchange, without floats: a \<open>str\<close> is its list
  of code points, a \<open>dict\<close> has string keys and is a list of pairs in insertion order.
\<close>

type_synonym ustr = "nat list"

datatype json =
    JNull | JBool bool | JInt int | JStr ustr | JArr "json list" | JObj "(ustr \<times> json) list"

definition hex4 :: "nat \<Rightarrow> string" where
  "hex4 c = [hexdigit (c div 4096), hexdigit (c div 256), hexdigit (c div 16), hexdigit c]"

text \<open>
  The string encoder of \<open>json.dumps\<close> with \<open>ensure_ascii\<close>: printable ASCII but the quote
  and the backslash stands for itself, seven characters have a short escape, any other
  code point of the basic plane is \<open>\uXXXX\<close> and one beyond it is a surrogate pair.
\<close>

definition json_escape_char :: "nat \<Rightarrow> string" where
  "json_escape_char c =
     (if c = 0x22 then [CHR 0x5C, CHR 0x22]
      else if c = 0x5C then [CHR 0x5C, CHR 0x5C]
      else if c = 0x0A then [CHR 0x5C, CHR ''n'']
      else if c = 0x0D then [CHR 0x5C, CHR ''r'']
      else if c = 0x09 then [CHR 0x5C, CHR ''t'']
      else if c = 0x08 then [CHR 0x5C, CHR ''b'']
      else if c = 0x0C then [CHR 0x5C, CHR ''f'']
      else if 0x20 \<le> c \<and> c \<le> 0x7E then [char_of c]
      else if c < 0x10000 then [CHR 0x5C, CHR ''u''] @ hex4 c
      else [CHR 0x5C, CHR ''u''] @ hex4 (0xD800 + (c - 0x10000) div 1024 mod 1024)
         @ [CHR 0x5C, CHR ''u''] @ hex4 (0xDC00 + (c - 0x10000) mod 1024))"

definition json_string :: "ustr \<Rightarrow> string" where
  "json_string s = [CHR 0x22] @ concat (map json_escape_char s) @ [CHR 0x22]"

fun dec_digits :: "nat \<Rightarrow> string" where
  "dec_digits n =
     (if n < 10 then [char_of (48 + n)] else dec_digits (n div 10) @ [char_of (48 + n mod 10)])"

definition json_int :: "int \<Rightarrow> string" where
  "json_int i = (if i < 0 then CHR ''-'' # dec_digits (nat (- i)) else dec_digits (nat i))"

text \<open>
  \<open>json.dumps(data, separators=(",", ":"), sort_keys=True)\<close>: no whitespace, and the
  items of every \<open>dict\<close> in the order of their keys.
\<close>

fun json_dumps :: "json \<Rightarrow> string" where
  "json_dumps JNull = ''null''"
| "json_dumps (JBool b) = (if b then ''true'' else ''false'')"
| "json_dumps (JInt i) = json_int i"
| "json_dumps (JStr s) = json_string s"
| "json_dumps (JArr xs) = ''['' @ join '','' (map json_dumps xs) @ '']''"
| "json_dumps (JObj kvs) =
     ''{'' @ join '','' (map (\<lambda>(k, v). json_string k @ '':'' @ json_dumps v) (sort_key fst kvs)) @ ''}''"

definition b64char :: "nat \<Rightarrow> char" where
  "b64char n = ''ABCDEFGHIJKLMNOPQRSTUVWXYZabcdefghijklmnopqrstuvwxyz0123456789-_'' ! (n mod 64)"

text \<open>\<open>base64.urlsafe_b64encode\<close>: three bytes make four characters, padded with \<open>=\<close>.\<close>

fun b64encode :: "nat list \<Rightarrow> string" where
  "b64encode [] = []"
| "b64encode [a] = [b64char (a div 4), b64char (a mod 4 * 16), CHR ''='', CHR ''='']"
| "b64encode [a, b] =
     [b64char (a div 4), b64char (a mod 4 * 16 + b div 16), b64char (b mod 16 * 4), CHR ''='']"
| "b64encode (a # b # c # rest) =
     [b64char (a div 4), b64char (a mod 4 * 16 + b div 16),
      b64char (b mod 16 * 4 + c div 64), b64char (c mod 64)] @ b64encode rest"

definition urlsafe_b64encode :: "string \<Rightarrow> string" where
  "urlsafe_b64encode b = b64encode (map of_char b)"

definition encode_payload :: "json \<Rightarrow> string" where
  "encode_payload data = urlsafe_b64encode (encode_utf8 (json_dumps data))"

text \<open>
  \<open>generate_qr_png_base64\<close> returns the rendered image and the encoded text, or raises
  what the renderer raises.
\<close>

definition generate_qr_png_base64 :: "lib \<Rightarrow> json \<Rightarrow> exn + (string \<times> string)" where
  "generate_qr_png_base64 L data =
     (let encoded = encode_payload data in
      case qr_png L encoded of Inl e \<Rightarrow> Inl e | Inr png \<Rightarrow> Inr (png, encoded))"

text \<open>A field dictionary as the value \<open>json.dumps\<close> receives.\<close>

fun json_of_val :: "pyval \<Rightarrow> json" where
  "json_of_val PNone = JNull"
| "json_of_val (PStr s) = JStr (map of_char s)"

definition json_of_dict :: "pydict \<Rightarrow> json" where
  "json_of_dict d = JObj (map (\<lambda>(k, v). (map of_char k, json_of_val v)) d)"

section \<open>Verification orchestrator (\<open>build_verification_payload\<close> in \<open>main.py\<close>)\<close>

definition NORMALIZATION_STRATEGY :: string where
  "NORMALIZATION_STRATEGY = ''unicode_nfkc_lowercase_whitespace_collapse''"

text \<open>How an f-string prints a field value.\<close>

fun format_val :: "pyval \<Rightarrow> string" where
  "format_val PNone = ''None''"
| "format_val (PStr s) = s"

text \<open>The values the function computes before it touches the metadata file.\<close>

record fields =
  f_id :: pyval
  f_file_hash :: pyval
  f_issued_at :: string
  f_normalization_strategy :: pyval
  f_zk_commitment :: string
  f_checksum :: string
  f_signature :: string
  f_qr_payload :: string
  f_qr_png_base64 :: string

definition signable_of ::
  "pyval \<Rightarrow> pyval \<Rightarrow> string \<Rightarrow> pyval \<Rightarrow> string \<Rightarrow> string \<Rightarrow> pydict" where
  "signable_of i file_hash issued_at strategy zk checksum =
     [(''id'', i), (''file_hash'', file_hash), (''issued_at'', PStr issued_at),
      (''normalization_strategy'', strategy), (''zk_commitment'', PStr zk),
      (''checksum'', PStr checksum)]"

definition signable :: "fields \<Rightarrow> pydict" where
  "signable f =
     signable_of (f_id f) (f_file_hash f) (f_issued_at f) (f_normalization_strategy f)
       (f_zk_commitment f) (f_checksum f)"

text \<open>
  The timestamp, the checksum, the signature and the QR code of the first part of
  \<open>build_verification_payload\<close>: a stored value is kept when it is truthy; the stored
  signature is kept when it also verifies and is recomputed otherwise; the QR payload
  and image are generated only when one of the two stored ones is missing.
\<close>

definition issued_at_for :: "lib \<Rightarrow> pyval \<Rightarrow> string" where
  "issued_at_for L stored = (if truthy stored then format_val stored else utcnow L)"

definition checksum_for :: "lib \<Rightarrow> pyval \<Rightarrow> string \<Rightarrow> pyval \<Rightarrow> pyval \<Rightarrow> string" where
  "checksum_for L i zk_commitment file_hash stored =
     (if truthy stored then format_val stored
      else py_upper (take 12 (hex_of_bytes (sha256 L (encode_utf8
             (format_val i @ '':'' @ zk_commitment @ '':'' @ format_val file_hash))))))"

definition signature_for :: "lib \<Rightarrow> pydict \<Rightarrow> pyval \<Rightarrow> exn + string" where
  "signature_for L signed stored =
     (if truthy stored
      then (case verify_signature L signed (format_val stored) of
              Inl e \<Rightarrow> Inl e
            | Inr ok \<Rightarrow> Inr (if ok then format_val stored else sign_payload L signed))
      else Inr (sign_payload L signed))"

definition qr_for :: "lib \<Rightarrow> pydict \<Rightarrow> string \<Rightarrow> pyval \<Rightarrow> pyval \<Rightarrow> exn + (string \<times> string)" where
  "qr_for L signed signature qr_payload qr_png_base64 =
     (if truthy qr_payload \<and> truthy qr_png_base64
      then Inr (format_val qr_png_base64, format_val qr_payload)
      else generate_qr_png_base64 L (json_of_dict (signed @ [(''signature'', PStr signature)])))"

text \<open>
  The first part of \<open>build_verification_payload\<close>, down to the QR code: a missing
  commitment raises \<open>ValueError\<close> and a record without \<open>id\<close> raises \<open>KeyError\<close>.
\<close>

definition compute_fields :: "lib \<Rightarrow> pydict \<Rightarrow> exn + fields" where
  "compute_fields L document =
     (if \<not> truthy (dict_get document ''zk_commitment'') then Inl ValueError
      else case map_of document ''id'' of
        None \<Rightarrow> Inl KeyError
      | Some i \<Rightarrow>
          let issued_at = issued_at_for L (dict_get document ''timestamp'');
              file_hash = dict_get document ''file_hash'';
              normalization_strategy =
                dict_get_default document ''normalization_strategy'' (PStr NORMALIZATION_STRATEGY);
              zk_commitment = format_val (dict_get document ''zk_commitment'');
              checksum = checksum_for L i zk_commitment file_hash (dict_get document ''checksum'');
              signed = signable_of i file_hash issued_at normalization_strategy zk_commitment checksum
          in case signature_for L signed (dict_get document ''signature'') of
               Inl e \<Rightarrow> Inl e
             | Inr signature \<Rightarrow>
                 (case qr_for L signed signature (dict_get document ''qr_payload'')
                         (dict_get document ''qr_png_base64'') of
                    Inl e \<Rightarrow> Inl e
                  | Inr (png, encoded) \<Rightarrow>
                      Inr \<lparr>f_id = i, f_file_hash = file_hash, f_issued_at = issued_at,
                           f_normalization_strategy = normalization_strategy,
                           f_zk_commitment = zk_commitment, f_checksum = checksum,
                           f_signature = signature, f_qr_payload = encoded,
                           f_qr_png_base64 = png\<rparr>))"

definition updated_fields :: "fields \<Rightarrow> pydict" where
  "updated_fields f =
     [(''normalization_strategy'', f_normalization_strategy f),
      (''timestamp'', PStr (f_issued_at f)),
      (''checksum'', PStr (f_checksum f)),
      (''signature'', PStr (f_signature f)),
      (''qr_payload'', PStr (f_qr_payload f)),
      (''qr_png_base64'', PStr (f_qr_png_base64 f))]"

text \<open>\<open>any(document.get(key) != value for key, value in updated_fields.items())\<close>.\<close>

definition persistence_needed :: "pydict \<Rightarrow> pydict \<Rightarrow> bool" where
  "persistence_needed document upd = list_ex (\<lambda>(key, v). dict_get document key \<noteq> v) upd"

text \<open>\<open>dict.update\<close>: a key that is there keeps its place, a new one goes to the end.\<close>

definition dict_update :: "pydict \<Rightarrow> pydict \<Rightarrow> pydict" where
  "dict_update d upd = foldl (\<lambda>acc (k, v). AList.update k v acc) d upd"

text \<open>
  The loop of the persist step: the first record of the loaded list whose \<open>id\<close> equals
  the document's is updated, and the loop stops there; \<open>None\<close> when no record has it.
\<close>

fun update_first :: "pyval \<Rightarrow> pydict \<Rightarrow> pydict list \<Rightarrow> pydict list option" where
  "update_first i upd [] = None"
| "update_first i upd (doc # rest) =
     (if dict_get doc ''id'' = i then Some (dict_update doc upd # rest)
      else map_option ((#) doc) (update_first i upd rest))"

text \<open>The response model: every field of \<open>DocumentVerificationPayload\<close> is a \<open>str\<close>.\<close>

record payload =
  p_id :: string
  p_file_hash :: string
  p_issued_at :: string
  p_normalization_strategy :: string
  p_zk_commitment :: string
  p_checksum :: string
  p_signature :: string
  p_qr_payload :: string
  p_qr_png_base64 :: string

definition make_payload :: "fields \<Rightarrow> exn + payload" where
  "make_payload f =
     (case (f_id f, f_file_hash f, f_normalization_strategy f) of
        (PStr i, PStr h, PStr s) \<Rightarrow>
          Inr \<lparr>p_id = i, p_file_hash = h, p_issued_at = f_issued_at f,
               p_normalization_strategy = s, p_zk_commitment = f_zk_commitment f,
               p_checksum = f_checksum f, p_signature = f_signature f,
               p_qr_payload = f_qr_payload f, p_qr_png_base64 = f_qr_png_base64 f\<rparr>
      | _ \<Rightarrow> Inl ValidationError)"

text \<open>
  What a call leaves behind: the value returned or the exception raised, the caller's
  \<open>document\<close> (the function updates it in place) and the metadata file.
\<close>

record outcome =
  result :: "exn + payload"
  document_after :: pydict
  fs_after :: fs

definition build_verification_payload :: "lib \<Rightarrow> pydict \<Rightarrow> fs \<Rightarrow> outcome" where
  "build_verification_payload L document st =
     (case compute_fields L document of
        Inl e \<Rightarrow> \<lparr>result = Inl e, document_after = document, fs_after = st\<rparr>
      | Inr f \<Rightarrow>
          if persistence_needed document (updated_fields f) then
            (case update_first (f_id f) (updated_fields f) (load_documents st) of
               None \<Rightarrow> \<lparr>result = make_payload f, document_after = document, fs_after = st\<rparr>
             | Some documents \<Rightarrow>
                 (case save_documents documents st of
                    (Inl e, st') \<Rightarrow>
                      \<lparr>result = Inl e,
                       document_after = dict_update document (updated_fields f), fs_after = st'\<rparr>
                  | (Inr u, st') \<Rightarrow>
                      \<lparr>result = make_payload f,
                       document_after = dict_update document (updated_fields f), fs_after = st'\<rparr>))
          else \<lparr>result = make_payload f, document_after = document, fs_after = st\<rparr>)"

text \<open>
  The next write, if there is one, does not fail after the file has been opened (and
  truncated).
\<close>

definition write_completes :: "fs \<Rightarrow> bool" where
  "write_completes st \<longleftrightarrow> (case outcomes st of DumpFails # rest \<Rightarrow> False | _ \<Rightarrow> True)"

text \<open>
  The document is the record the file holds for its \<open>id\<close>: the first record of the file
  with this \<open>id\<close>, which is the one the persist step updates. Both callers pass what
  \<open>find_document\<close> has just loaded from the file.
\<close>

definition stored_record :: "fs \<Rightarrow> pydict \<Rightarrow> bool" where
  "stored_record st document \<longleftrightarrow>
     find (\<lambda>d. dict_get d ''id'' = dict_get document ''id'') (load_documents st) = Some document"

text \<open>The keys the persist step may write.\<close>

definition written_keys :: "string list" where
  "written_keys =
     [''normalization_strategy'', ''timestamp'', ''checksum'', ''signature'', ''qr_payload'',
      ''qr_png_base64'']"

text \<open>
  A stand-in for the library, to run the functions on concrete inputs: a digest is the
  first 32 bytes of the padded input, the renderer returns a fixed text, and the clock
  stands still.
\<close>

definition example_lib :: lib where
  "example_lib =
     \<lparr>sha256 = (\<lambda>b. take 32 (b @ replicate 32 (CHR ''=''))),
      hmac_sha256 = (\<lambda>k m. take 32 (k @ m @ replicate 32 (CHR ''=''))),
      qr_png = (\<lambda>s. Inr ''iVBORw0KGgo=''),
      utcnow = ''2024-05-01T12:00:00Z'',
      signing_secret = ''dev-signing-secret''\<rparr>"

text \<open>
  What the first call computes for the example record, and the record once these values
  are stored in it.
\<close>

definition example_signed :: pydict where
  "example_signed =
     [(''id'', PStr ''INV-1234-5678''), (''file_hash'', PStr ''ab''),
      (''issued_at'', PStr ''2024-05-01T12:00:00Z''),
      (''normalization_strategy'', PStr ''unicode_nfkc_lowercase_whitespace_collapse''),
      (''zk_commitment'', PStr ''02''), (''checksum'', PStr ''494E562D3132''),
      (''signature'', PStr ''6465762d7369676e696e672d7365637265745b2827636865636b73756d272c20'')]"

definition example_fields :: fields where
  "example_fields =
     \<lparr>f_id = PStr ''INV-1234-5678'', f_file_hash = PStr ''ab'',
      f_issued_at = ''2024-05-01T12:00:00Z'',
      f_normalization_strategy = PStr ''unicode_nfkc_lowercase_whitespace_collapse'',
      f_zk_commitment = ''02'', f_checksum = ''494E562D3132'',
      f_signature = ''6465762d7369676e696e672d7365637265745b2827636865636b73756d272c20'',
      f_qr_payload = encode_payload (json_of_dict example_signed),
      f_qr_png_base64 = ''iVBORw0KGgo=''\<rparr>"

definition example_complete :: pydict where
  "example_complete = dict_update example_document (updated_fields example_fields)"

text \<open>
  The completed record after its signature was overwritten: the stored QR payload still
  encodes the field set with the stored signature.
\<close>

definition example_tampered :: pydict where
  "example_tampered =
     dict_update example_complete
       [(''signature'', PStr ''tampered''),
        (''qr_payload'', PStr (encode_payload (json_of_dict
            (signable example_fields @ [(''signature'', PStr ''tampered'')]))))]"

definition tampered_fs :: fs where
  "tampered_fs = \<lparr>content = Some [example_tampered], outcomes = [], attempts = 0\<rparr>"

text \<open>
  The example file on a disk whose next write fails during the dump and whose second
  write would succeed.
\<close>

definition faulty_fs :: fs where
  "faulty_fs = example_fs\<lparr>outcomes := [DumpFails, Written]\<rparr>"

text \<open>The file after a first call has completed the example record.\<close>

definition completed_fs :: fs where
  "completed_fs =
     \<lparr>content = Some [[(''id'', PStr ''INV-0000-0001'')], example_complete],
      outcomes = [], attempts = 1\<rparr>"

section \<open>Commitment and Schnorr proof (\<open>services/zk_proof.py\<close>)\<close>

subsection \<open>The curve secp256k1, as the \<open>ecdsa\<close> package computes on it\<close>

text \<open>
  The field prime, the group order \<open>ORDER\<close> and the generator \<open>GENERATOR\<close> of
  \<open>SECP256k1\<close>; the curve is \<open>y\<^sup>2 = x\<^sup>3 + 7\<close>.
\<close>

definition curve_p :: int where
  "curve_p = 0xFFFFFFFFFFFFFFFFFFFFFFFFFFFFFFFFFFFFFFFFFFFFFFFFFFFFFFFEFFFFFC2F"

definition ORDER :: int where
  "ORDER = 0xFFFFFFFFFFFFFFFFFFFFFFFFFFFFFFFEBAAEDCE6AF48A03BBFD25E8CD0364141"

datatype point = Infinity | Pt int int

definition GENERATOR :: point where
  "GENERATOR =
     Pt 0x79BE667EF9DCBBAC55A06295CE870B07029BFCDB2DCE28D959F2815B16F81798
        0x483ADA7726A3C4655DA4FBFC0E1108A8FD17B448A68554199C47D08FFB10D4B8"

definition contains_point :: "int \<Rightarrow> int \<Rightarrow> bool" where
  "contains_point x y \<longleftrightarrow> (y * y - (x * x * x + 7)) mod curve_p = 0"

text \<open>\<open>pow(b, e, m)\<close> by repeated squaring.\<close>

function pow_mod :: "int \<Rightarrow> int \<Rightarrow> int \<Rightarrow> int" where
  "pow_mod b e m =
     (if e \<le> 0 then 1 mod m
      else let h = pow_mod b (e div 2) m; s = h * h mod m
           in if even e then s else s * b mod m)"
  by pat_completeness auto
termination
  by (relation "measure (\<lambda>(b, e, m). nat e)") auto

text \<open>\<open>inverse_mod(a, m)\<close>: the loop of the extended Euclidean algorithm.\<close>

function inverse_loop :: "int \<Rightarrow> int \<Rightarrow> int \<Rightarrow> int \<Rightarrow> int" where
  "inverse_loop lm low hm high =
     (if 1 < low then inverse_loop (hm - lm * (high div low)) (high - low * (high div low)) lm low
      else lm)"
  by pat_completeness auto
termination
proof (relation "measure (\<lambda>(lm, low, hm, high). nat low)")
  show "wf (measure (\<lambda>(lm, low, hm, high). nat low))" by simp
next
  fix lm low hm high :: int
  assume "1 < low"
  then have "high - low * (high div low) = high mod low" "0 \<le> high mod low" "high mod low < low"
    by (simp_all add: minus_mult_div_eq_mod)
  then show "((hm - lm * (high div low), high - low * (high div low), lm, low), lm, low, hm, high)
               \<in> measure (\<lambda>(lm, low, hm, high). nat low)"
    by simp
qed

definition inverse_mod :: "int \<Rightarrow> int \<Rightarrow> int" where
  "inverse_mod a m = (if a mod m = 0 then 0 else inverse_loop 1 (a mod m) 0 m mod m)"

text \<open>Doubling and addition of points in affine coordinates, and the scalar multiple.\<close>

fun point_double :: "point \<Rightarrow> point" where
  "point_double Infinity = Infinity"
| "point_double (Pt x y) =
     (let l = (3 * x * x) * inverse_mod (2 * y) curve_p mod curve_p;
          x3 = (l * l - 2 * x) mod curve_p;
          y3 = (l * (x - x3) - y) mod curve_p
      in Pt x3 y3)"

fun point_add :: "point \<Rightarrow> point \<Rightarrow> point" where
  "point_add Infinity q = q"
| "point_add (Pt x1 y1) Infinity = Pt x1 y1"
| "point_add (Pt x1 y1) (Pt x2 y2) =
     (if x1 = x2 then
        (if (y1 + y2) mod curve_p = 0 then Infinity else point_double (Pt x1 y1))
      else
        let l = (y2 - y1) * inverse_mod (x2 - x1) curve_p mod curve_p;
            x3 = (l * l - x1 - x2) mod curve_p;
            y3 = (l * (x1 - x3) - y1) mod curve_p
        in Pt x3 y3)"

function point_mul :: "int \<Rightarrow> point \<Rightarrow> point" where
  "point_mul k P =
     (if k \<le> 0 then Infinity
      else let h = point_mul (k div 2) (point_double P)
           in if even k then h else point_add P h)"
  by pat_completeness auto
termination
  by (relation "measure (\<lambda>(k, P). nat k)") auto

subsection \<open>Byte strings and integers\<close>

definition hexval :: "char \<Rightarrow> nat option" where
  "hexval c =
     (let n = (of_char c :: nat) in
      if 48 \<le> n \<and> n \<le> 57 then Some (n - 48)
      else if 97 \<le> n \<and> n \<le> 102 then Some (n - 87)
      else if 65 \<le> n \<and> n \<le> 70 then Some (n - 55)
      else None)"

definition is_space :: "char \<Rightarrow> bool" where
  "is_space c \<longleftrightarrow> (let n = (of_char c :: nat) in (9 \<le> n \<and> n \<le> 13) \<or> n = 32)"

text \<open>
  \<open>bytes.fromhex\<close>: pairs of hexadecimal digits, with ASCII whitespace allowed between
  the pairs; anything else raises \<open>ValueError\<close>.
\<close>

fun fromhex :: "string \<Rightarrow> exn + string" where
  "fromhex [] = Inr []"
| "fromhex [c] = (if is_space c then Inr [] else Inl ValueError)"
| "fromhex (c # d # rest) =
     (if is_space c then fromhex (d # rest)
      else case (hexval c, hexval d) of
             (Some a, Some b) \<Rightarrow>
               (case fromhex rest of Inl e \<Rightarrow> Inl e | Inr bs \<Rightarrow> Inr (char_of (16 * a + b) # bs))
           | _ \<Rightarrow> Inl ValueError)"

text \<open>
  \<open>int(s, 16)\<close>: surrounding whitespace, a sign, the prefix \<open>0x\<close>, and digits that
  single underscores may separate; \<open>None\<close> stands for \<open>ValueError\<close>.
\<close>

fun hex_digits :: "int \<Rightarrow> bool \<Rightarrow> string \<Rightarrow> int option" where
  "hex_digits acc after_digit [] = (if after_digit then Some acc else None)"
| "hex_digits acc after_digit (c # cs) =
     (if c = CHR ''_'' then (if after_digit then hex_digits acc False cs else None)
      else case hexval c of
             Some v \<Rightarrow> hex_digits (16 * acc + int v) True cs
           | None \<Rightarrow> None)"

definition unsigned_hex :: "string \<Rightarrow> int option" where
  "unsigned_hex s =
     (case s of
        c # x # rest \<Rightarrow>
          if c = CHR ''0'' \<and> (x = CHR ''x'' \<or> x = CHR ''X'')
          then (case rest of
                  u # ds \<Rightarrow> if u = CHR ''_'' then hex_digits 0 False ds else hex_digits 0 False rest
                | [] \<Rightarrow> None)
          else hex_digits 0 False s
      | _ \<Rightarrow> hex_digits 0 False s)"

definition int_space :: "char \<Rightarrow> bool" where
  "int_space c \<longleftrightarrow> is_space c \<or> (of_char c :: nat) = 133 \<or> (of_char c :: nat) = 160"

definition strip_spaces :: "string \<Rightarrow> string" where
  "strip_spaces s = rev (dropWhile int_space (rev (dropWhile int_space s)))"

definition int16 :: "string \<Rightarrow> int option" where
  "int16 s =
     (case strip_spaces s of
        [] \<Rightarrow> None
      | c # cs \<Rightarrow>
          if c = CHR ''-'' then map_option uminus (unsigned_hex cs)
          else if c = CHR ''+'' then unsigned_hex cs
          else unsigned_hex (c # cs))"

text \<open>\<open>int.from_bytes(b, "big")\<close> and \<open>n.to_bytes(32, "big")\<close>, which raises when \<open>n\<close> does not fit.\<close>

definition from_bytes :: "string \<Rightarrow> int" where
  "from_bytes b = foldl (\<lambda>acc c. 256 * acc + int (of_char c)) 0 b"

fun bytes_of :: "nat \<Rightarrow> int \<Rightarrow> string" where
  "bytes_of 0 v = []"
| "bytes_of (Suc k) v = bytes_of k (v div 256) @ [char_of (nat (v mod 256))]"

definition to_bytes32 :: "int \<Rightarrow> exn + string" where
  "to_bytes32 v = (if v < 0 \<or> 2 ^ 256 \<le> v then Inl OverflowError else Inr (bytes_of 32 v))"

subsection \<open>Parsing a public key\<close>

text \<open>
  \<open>square_root_mod_prime\<close> for the field prime, which is 3 modulo 4: a number that is
  not a square has none (the package raises \<open>SquareRootError\<close>).
\<close>

definition square_root_mod_prime :: "int \<Rightarrow> int option" where
  "square_root_mod_prime a =
     (if a = 0 then Some 0
      else if pow_mod a ((curve_p - 1) div 2) curve_p \<noteq> 1 then None
      else Some (pow_mod a ((curve_p + 1) div 4) curve_p))"

text \<open>
  \<open>VerifyingKey.from_string(b, curve=SECP256k1)\<close>: the raw, uncompressed, hybrid and
  compressed encodings are accepted; the point must have coordinates below the prime
  and lie on the curve. Every failure is an exception of the package, here \<open>ValueError\<close>.
\<close>

definition checked_point :: "int \<Rightarrow> int \<Rightarrow> exn + point" where
  "checked_point x y =
     (if x < curve_p \<and> y < curve_p \<and> contains_point x y then Inr (Pt x y) else Inl ValueError)"

definition from_string :: "string \<Rightarrow> exn + point" where
  "from_string b =
     (if length b = 64 then checked_point (from_bytes (take 32 b)) (from_bytes (drop 32 b))
      else if length b = 65 then
        (let tag = (of_char (hd b) :: nat);
             x = from_bytes (take 32 (tl b)); y = from_bytes (drop 32 (tl b))
         in if tag = 4 then checked_point x y
            else if tag = 6 \<or> tag = 7 then
              (if (tag = 7) = odd y then checked_point x y else Inl ValueError)
            else Inl ValueError)
      else if length b = 33 then
        (let tag = (of_char (hd b) :: nat); x = from_bytes (tl b)
         in if tag = 2 \<or> tag = 3 then
              (case square_root_mod_prime ((pow_mod x 3 curve_p + 7) mod curve_p) of
                 None \<Rightarrow> Inl ValueError
               | Some beta \<Rightarrow>
                   checked_point x (if (tag = 2) = odd beta then curve_p - beta else beta))
            else Inl ValueError)
      else Inl ValueError)"

text \<open>\<open>to_string("compressed")\<close> of a public key; the point at infinity has no encoding.\<close>

fun compressed :: "point \<Rightarrow> exn + string" where
  "compressed Infinity = Inl TypeError"
| "compressed (Pt x y) = Inr (char_of (if even y then 2 else 3 :: nat) # bytes_of 32 x)"

subsection \<open>The functions of the module\<close>

definition ensure_scalar :: "int \<Rightarrow> int" where
  "ensure_scalar scalar = (if scalar mod ORDER = 0 then 1 else scalar mod ORDER)"

text \<open>
  \<open>commitment_from_hash\<close>: \<open>int(hash_hex, 16)\<close> raises \<open>ValueError\<close> on text that is no
  number; the signing key's public point is the generator times the scalar.
\<close>

definition commitment_from_hash :: "string \<Rightarrow> exn + string" where
  "commitment_from_hash hash_hex =
     (case int16 hash_hex of
        None \<Rightarrow> Inl ValueError
      | Some v \<Rightarrow>
          (case compressed (point_mul (ensure_scalar v) GENERATOR) of
             Inl e \<Rightarrow> Inl e
           | Inr b \<Rightarrow> Inr (hex_of_bytes b)))"

record schnorr_proof =
  proof_rx :: int
  proof_ry :: int
  proof_s :: int

text \<open>\<open>SchnorrProof.from_payload\<close>: a missing key or a malformed number is a \<open>ValueError\<close>.\<close>

definition from_payload :: "(string \<times> string) list \<Rightarrow> exn + schnorr_proof" where
  "from_payload payload =
     (case (map_of payload ''rx'', map_of payload ''ry'', map_of payload ''s'') of
        (Some a, Some b, Some c) \<Rightarrow>
          (case (int16 a, int16 b, int16 c) of
             (Some x, Some y, Some z) \<Rightarrow> Inr \<lparr>proof_rx = x, proof_ry = y, proof_s = z\<rparr>
           | _ \<Rightarrow> Inl ValueError)
      | _ \<Rightarrow> Inl ValueError)"

text \<open>
  \<open>SchnorrProof.challenge\<close>: the hash of \<open>rx\<close> and \<open>ry\<close> as 32 bytes each, the commitment
  bytes, the document id and the context, reduced modulo the order.
\<close>

definition challenge :: "lib \<Rightarrow> schnorr_proof \<Rightarrow> string \<Rightarrow> string \<Rightarrow> string \<Rightarrow> exn + int" where
  "challenge L prf commitment_hex document_id context =
     (case fromhex commitment_hex of
        Inl e \<Rightarrow> Inl e
      | Inr commitment_bytes \<Rightarrow>
          (case to_bytes32 (proof_rx prf) of
             Inl e \<Rightarrow> Inl e
           | Inr rx_bytes \<Rightarrow>
               (case to_bytes32 (proof_ry prf) of
                  Inl e \<Rightarrow> Inl e
                | Inr ry_bytes \<Rightarrow>
                    Inr (from_bytes (sha256 L (rx_bytes @ ry_bytes @ commitment_bytes
                           @ encode_utf8 document_id @ encode_utf8 context)) mod ORDER))))"

text \<open>\<open>SchnorrProof.to_point\<close>: the constructor of \<open>Point\<close> asserts that the point is on the curve.\<close>

definition to_point :: "schnorr_proof \<Rightarrow> exn + point" where
  "to_point prf =
     (if contains_point (proof_rx prf) (proof_ry prf)
      then Inr (Pt (proof_rx prf mod curve_p) (proof_ry prf mod curve_p))
      else Inl AssertionError)"

text \<open>
  \<open>verify_schnorr_proof\<close>: parsing the commitment and the payload is guarded and gives
  \<open>False\<close>; the challenge and the proof point are computed outside any \<open>try\<close>.
\<close>

definition verify_schnorr_proof ::
  "lib \<Rightarrow> string \<Rightarrow> string \<Rightarrow> (string \<times> string) list \<Rightarrow> string \<Rightarrow> exn + bool" where
  "verify_schnorr_proof L commitment_hex document_id proof_payload context =
     (case fromhex commitment_hex of
        Inl e \<Rightarrow> Inr False
      | Inr commitment_bytes \<Rightarrow>
          (case from_string commitment_bytes of
             Inl e \<Rightarrow> Inr False
           | Inr verifying_key \<Rightarrow>
               (case from_payload proof_payload of
                  Inl e \<Rightarrow> Inr False
                | Inr prf \<Rightarrow>
                    (case challenge L prf commitment_hex document_id context of
                       Inl e \<Rightarrow> Inl e
                     | Inr c \<Rightarrow>
                         (case to_point prf of
                            Inl e \<Rightarrow> Inl e
                          | Inr proof_point \<Rightarrow>
                              Inr (point_mul (ensure_scalar (proof_s prf)) GENERATOR
                                   = point_add proof_point (point_mul c verifying_key)))))))"

text \<open>The commitment parses: \<open>VerifyingKey.from_string\<close> returns a key.\<close>

definition commitment_parses :: "string \<Rightarrow> bool" where
  "commitment_parses commitment_hex \<longleftrightarrow>
     (case fromhex commitment_hex of
        Inl e \<Rightarrow> False
      | Inr b \<Rightarrow> (case from_string b of Inl e \<Rightarrow> False | Inr k \<Rightarrow> True))"

text \<open>The uncompressed encoding of the generator, as a commitment.\<close>

definition generator_hex :: string where
  "generator_hex =
     ''04'' @ ''79be667ef9dcbbac55a06295ce870b07029bfcdb2dce28d959f2815b16f81798''
          @ ''483ada7726a3c4655da4fbfc0e1108a8fd17b448a68554199c47d08ffb10d4b8''"

text \<open>The bytes of \<open>generator_hex\<close>: the tag 4 and the two coordinates of the generator.\<close>

definition generator_bytes :: string where
  "generator_bytes = [
      CHR 0x04, CHR 0x79, CHR 0xBE, CHR 0x66, CHR 0x7E, CHR 0xF9, CHR 0xDC, CHR 0xBB,
      CHR 0xAC, CHR 0x55, CHR 0xA0, CHR 0x62, CHR 0x95, CHR 0xCE, CHR 0x87, CHR 0x0B,
      CHR 0x07, CHR 0x02, CHR 0x9B, CHR 0xFC, CHR 0xDB, CHR 0x2D, CHR 0xCE, CHR 0x28,
      CHR 0xD9, CHR 0x59, CHR 0xF2, CHR 0x81, CHR 0x5B, CHR 0x16, CHR 0xF8, CHR 0x17,
      CHR 0x98, CHR 0x48, CHR 0x3A, CHR 0xDA, CHR 0x77, CHR 0x26, CHR 0xA3, CHR 0xC4,
      CHR 0x65, CHR 0x5D, CHR 0xA4, CHR 0xFB, CHR 0xFC, CHR 0x0E, CHR 0x11, CHR 0x08,
      CHR 0xA8, CHR 0xFD, CHR 0x17, CHR 0xB4, CHR 0x48, CHR 0xA6, CHR 0x85, CHR 0x54,
      CHR 0x19, CHR 0x9C, CHR 0x47, CHR 0xD0, CHR 0x8F, CHR 0xFB, CHR 0x10, CHR 0xD4,
      CHR 0xB8]"

section \<open>Content canonicalizer (\<open>normalize_text\<close> in \<open>services/text_processing.py\<close>)\<close>

text \<open>
  The text functions that rest on the Unicode character database are parameters:
  \<open>normalize_nfkc\<close> is \<open>unicodedata.normalize("NFKC", _)\<close> and \<open>str_lower\<close> is \<open>str.lower\<close>, on
  strings as lists of code points.
\<close>

record unicode_lib =
  normalize_nfkc :: "ustr \<Rightarrow> ustr"
  str_lower :: "ustr \<Rightarrow> ustr"

text \<open>The code points that \<open>\s\<close> matches and \<open>str.strip\<close> removes.\<close>

definition is_whitespace :: "nat \<Rightarrow> bool" where
  "is_whitespace c \<longleftrightarrow>
     (9 \<le> c \<and> c \<le> 13) \<or> (28 \<le> c \<and> c \<le> 32) \<or> c = 0x85 \<or> c = 0xA0 \<or> c = 0x1680
     \<or> (0x2000 \<le> c \<and> c \<le> 0x200A) \<or> c = 0x2028 \<or> c = 0x2029 \<or> c = 0x202F
     \<or> c = 0x205F \<or> c = 0x3000"

text \<open>\<open>re.sub(r"\s+", " ", text)\<close>: every run of whitespace becomes one space.\<close>

function collapse_whitespace :: "ustr \<Rightarrow> ustr" where
  "collapse_whitespace [] = []"
| "collapse_whitespace (c # cs) =
     (if is_whitespace c then 0x20 # collapse_whitespace (dropWhile is_whitespace cs)
      else c # collapse_whitespace cs)"
  by pat_completeness auto
termination
  by (relation "measure length") (auto simp: length_dropWhile_le less_Suc_eq_le)

definition strip_whitespace :: "ustr \<Rightarrow> ustr" where
  "strip_whitespace t = rev (dropWhile is_whitespace (rev (dropWhile is_whitespace t)))"

definition normalize_text :: "unicode_lib \<Rightarrow> ustr \<Rightarrow> ustr" where
  "normalize_text U raw_text =
     (if raw_text = [] then []
      else strip_whitespace (collapse_whitespace (str_lower U (normalize_nfkc U raw_text))))"

text \<open>
  A stand-in for the two library functions that agrees with CPython on the strings
  \<open>U+0130 U+0327\<close>, \<open>U+0069 U+0307 U+0327\<close> and \<open>U+0069 U+0327 U+0307\<close>: the capital I with dot
  above lowers to \<open>i\<close> and a combining dot above, and normalization puts the cedilla
  (combining class 202) before the dot above (class 230).
\<close>

definition example_unicode :: unicode_lib where
  "example_unicode =
     \<lparr>normalize_nfkc = (\<lambda>t. if t = [0x69, 0x307, 0x327] then [0x69, 0x327, 0x307] else t),
      str_lower = (\<lambda>t. concat (map (\<lambda>c. if c = 0x130 then [0x69, 0x307] else [c]) t))\<rparr>"
section \<open>Theorems: document lookup\<close>

lemma of_char_upper: "(of_char (upper_char c) :: nat) = (if 97 \<le> (of_char c :: nat) \<and> (of_char c :: nat) \<le> 122 then of_char c - 32 else of_char c)"
  by (auto simp add: upper_char_def Let_def)
lemma of_char_lower: "(of_char (lower_char c) :: nat) = (if 65 \<le> (of_char c :: nat) \<and> (of_char c :: nat) \<le> 90 then of_char c + 32 else of_char c)"
  by (auto simp add: lower_char_def Let_def)
lemma char_eq_iff_nat: "a = b \<longleftrightarrow> (of_char a :: nat) = of_char b"
  by simp
lemma upper_lower_char: "upper_char a = upper_char b \<longleftrightarrow> lower_char a = lower_char b"
proof -
  define x y where "x = (of_char a :: nat)" and "y = (of_char b :: nat)"
  have "((if 97 \<le> x \<and> x \<le> 122 then x - 32 else x) = (if 97 \<le> y \<and> y \<le> 122 then y - 32 else y))
     \<longleftrightarrow> ((if 65 \<le> x \<and> x \<le> 90 then x + 32 else x) = (if 65 \<le> y \<and> y \<le> 90 then y + 32 else y))"
    by (simp split: if_splits) arith
  then show ?thesis
    unfolding char_eq_iff_nat[of "upper_char a"] char_eq_iff_nat[of "lower_char a"] of_char_upper of_char_lower x_def y_def .
qed
lemma upper_lower: "py_upper a = py_upper b \<longleftrightarrow> py_lower a = py_lower b"
  unfolding py_upper_def py_lower_def
proof (induction a arbitrary: b)
  case Nil then show ?case by simp
next
  case (Cons x xs) then show ?case by (cases b) (simp_all add: upper_lower_char)
qed
lemma upper_upper: "upper_char (upper_char c) = upper_char c"
  unfolding char_eq_iff_nat[of "upper_char (upper_char c)"] of_char_upper by auto

lemma find_in_find:
  assumes "ids_are_text ds"
  shows "find_in q (py_upper (filter is_id_char q)) ds = Inr (find (id_matches q) ds)"
  using assms
proof (induction ds)
  case Nil
  then show ?case by simp
next
  case (Cons d ds)
  then have rest: "ids_are_text ds" by (simp add: ids_are_text_def)
  from Cons.prems have "map_of d ''id'' \<noteq> Some PNone"
    by (auto simp: ids_are_text_def)
  then have get: "dict_get_default d ''id'' (PStr []) = PStr (stored_id d)"
    by (auto simp: dict_get_default_def stored_id_def split: option.splits pyval.splits)
  have "py_upper (stored_id d) = py_upper (filter is_id_char q)
          \<longleftrightarrow> same_ignoring_case (stored_id d) (filter is_id_char q)"
    by (simp add: same_ignoring_case_def upper_lower)
  with get Cons.IH[OF rest] show ?case
    by (simp add: id_matches_def)
qed

text \<open>
  Claim C10. Document lookup is fuzzy: over a metadata file whose stored ids are text,
  \<open>find_document\<close> returns the first stored record whose id equals the query exactly
  or equals, up to the case of letters, the query with every character outside ASCII
  letters, digits and the hyphen removed; it returns \<open>None\<close> exactly when no stored
  record matches under either rule, so a query differing from a stored id in case or
  by extra punctuation or whitespace still finds a record.
\<close>

theorem find_document_fuzzy:
  assumes "ids_are_text (load_documents st)"
  shows "find_document st q = Inr (find (id_matches q) (load_documents st))
       \<and> (find_document st q = Inr None \<longleftrightarrow> (\<forall>d \<in> set (load_documents st). \<not> id_matches q d))
       \<and> (\<forall>d \<in> set (load_documents st). id_matches q d \<longrightarrow>
            (\<exists>r. find_document st q = Inr (Some r) \<and> r \<in> set (load_documents st) \<and> id_matches q r))"
proof -
  have eq: "find_document st q = Inr (find (id_matches q) (load_documents st))"
    unfolding find_document_def by (rule find_in_find[OF assms])
  have none: "find_document st q = Inr None \<longleftrightarrow> (\<forall>d \<in> set (load_documents st). \<not> id_matches q d)"
    unfolding eq by (auto simp: find_None_iff)
  have some: "\<exists>r. find_document st q = Inr (Some r) \<and> r \<in> set (load_documents st) \<and> id_matches q r"
    if "d \<in> set (load_documents st)" "id_matches q d" for d
  proof -
    from that have "find (id_matches q) (load_documents st) \<noteq> None"
      by (auto simp: find_None_iff)
    then obtain r where r: "find (id_matches q) (load_documents st) = Some r" by auto
    then have "r \<in> set (load_documents st) \<and> id_matches q r"
      by (auto simp: find_Some_iff)
    with r eq show ?thesis by simp
  qed
  from eq none some show ?thesis by blast
qed

theorem find_document_fuzzy_witness:
  "ids_are_text (load_documents example_fs)
   \<and> find_document example_fs '' inv-1234-5678!'' = Inr (Some example_document)
   \<and> find_document example_fs ''INV-1234'' = Inr None"
proof -
  have h: "ids_are_text (load_documents example_fs)"
    by (simp add: ids_are_text_def load_documents_def example_fs_def example_document_def is_ascii_def)
  have m: "find (id_matches '' inv-1234-5678!'') (load_documents example_fs) = Some example_document"
    by code_simp
  have n: "find (id_matches ''INV-1234'') (load_documents example_fs) = None"
    by code_simp
  from find_document_fuzzy[OF h, of "'' inv-1234-5678!''"] find_document_fuzzy[OF h, of "''INV-1234''"] h m n
  show ?thesis by simp
qed

section \<open>Theorems: the verification orchestrator\<close>

lemma map_of_dict_update_other:
  "k \<notin> fst ` set upd \<Longrightarrow> map_of (dict_update d upd) k = map_of d k"
  unfolding dict_update_def
  by (induction upd arbitrary: d) (auto simp: update_conv')

lemma keys_updated_fields: "fst ` set (updated_fields f) = set written_keys"
  by (simp add: updated_fields_def written_keys_def)

lemma update_first_Some:
  assumes "update_first i upd ds = Some ds'"
  shows "\<exists>idx < length ds. dict_get (ds ! idx) ''id'' = i
           \<and> (\<forall>j<idx. dict_get (ds ! j) ''id'' \<noteq> i)
           \<and> ds' = ds[idx := dict_update (ds ! idx) upd]"
  using assms
proof (induction ds arbitrary: ds')
  case Nil
  then show ?case by simp
next
  case (Cons d ds)
  show ?case
  proof (cases "dict_get d ''id'' = i")
    case True
    with Cons.prems have "ds' = (d # ds)[0 := dict_update ((d # ds) ! 0) upd]" by auto
    with True show ?thesis by (intro exI[of _ 0]) simp
  next
    case False
    with Cons.prems obtain r where r: "update_first i upd ds = Some r" and ds': "ds' = d # r"
      by auto
    from Cons.IH[OF r] obtain idx where idx: "idx < length ds" "dict_get (ds ! idx) ''id'' = i"
      "\<forall>j<idx. dict_get (ds ! j) ''id'' \<noteq> i" "r = ds[idx := dict_update (ds ! idx) upd]"
      by blast
    have "\<forall>j<Suc idx. dict_get ((d # ds) ! j) ''id'' \<noteq> i"
      using False idx(3) by (auto simp: less_Suc_eq_0_disj)
    with idx ds' show ?thesis by (intro exI[of _ "Suc idx"]) simp
  qed
qed

lemma fs_after_cases:
  assumes "write_completes st"
  shows "fs_after (build_verification_payload L document st) = st
   \<or> (load_documents (fs_after (build_verification_payload L document st)) = load_documents st)
   \<or> (\<exists>f ds'. compute_fields L document = Inr f
         \<and> update_first (f_id f) (updated_fields f) (load_documents st) = Some ds'
         \<and> load_documents (fs_after (build_verification_payload L document st)) = ds')"
  using assms
  by (auto simp: build_verification_payload_def save_documents_def load_documents_def
      write_completes_def
      split: sum.splits option.splits list.splits write_outcome.splits prod.splits)

lemma compute_fields_id:
  "compute_fields L document = Inr f \<Longrightarrow> f_id f = dict_get document ''id''"
  unfolding compute_fields_def dict_get_def[of document "''id''"] Let_def
  by (auto split: option.splits sum.splits if_splits prod.splits)

text \<open>
  Claim C9, as amended. When the write to the metadata file, if one is made, does not
  fail after the file has been opened, the file keeps its number of records; no key
  outside \<open>normalization_strategy\<close>, \<open>timestamp\<close>, \<open>checksum\<close>, \<open>signature\<close>, \<open>qr_payload\<close>
  and \<open>qr_png_base64\<close> changes in any record; a record that changes is the first one
  whose \<open>id\<close> equals the document's, and every other record is what it was. When the
  document passed in is the record the file holds for its \<open>id\<close>, so that its values
  are the stored ones, and the six computed values equal them, the file is not written
  at all.
\<close>

theorem persist_step_frame:
  "let out = build_verification_payload L document st;
       before = load_documents st;
       after = load_documents (fs_after out)
   in (write_completes st \<longrightarrow>
         length after = length before
       \<and> (\<forall>j<length before. \<forall>k. k \<notin> set written_keys \<longrightarrow>
             map_of (after ! j) k = map_of (before ! j) k)
       \<and> (\<forall>j<length before. after ! j \<noteq> before ! j \<longrightarrow>
             dict_get (before ! j) ''id'' = dict_get document ''id''
             \<and> (\<forall>i<j. dict_get (before ! i) ''id'' \<noteq> dict_get document ''id'')
             \<and> (\<forall>i<length before. i \<noteq> j \<longrightarrow> after ! i = before ! i)))
    \<and> (stored_record st document \<longrightarrow>
         (\<forall>f. compute_fields L document = Inr f
               \<and> list_all (\<lambda>(key, v). dict_get document key = v) (updated_fields f)
             \<longrightarrow> fs_after out = st))"
proof -
  define out where "out = build_verification_payload L document st"
  define before where "before = load_documents st"
  define after where "after = load_documents (fs_after out)"
  have shape: "after = before
     \<or> (\<exists>idx<length before. dict_get (before ! idx) ''id'' = dict_get document ''id''
          \<and> (\<forall>j<idx. dict_get (before ! j) ''id'' \<noteq> dict_get document ''id'')
          \<and> (\<exists>f. after = before[idx := dict_update (before ! idx) (updated_fields f)]))"
    if ok: "write_completes st"
  proof -
    from fs_after_cases[OF ok, of L document]
    consider "fs_after out = st" | "after = before"
      | f ds' where "compute_fields L document = Inr f"
          "update_first (f_id f) (updated_fields f) before = Some ds'" "after = ds'"
      unfolding out_def before_def after_def by blast
    then show ?thesis
    proof cases
      case 1
      then show ?thesis by (simp add: after_def before_def)
    next
      case 2
      then show ?thesis by simp
    next
      case 3
      from update_first_Some[OF 3(2)] compute_fields_id[OF 3(1)] 3(3)
      show ?thesis by auto
    qed
  qed
  have len: "length after = length before" if "write_completes st"
    using shape[OF that] by auto
  have frame: "map_of (after ! j) k = map_of (before ! j) k"
    if ok: "write_completes st" and j: "j < length before" and k: "k \<notin> set written_keys" for j k
    using shape[OF ok]
  proof
    assume "after = before"
    then show ?thesis by simp
  next
    assume "\<exists>idx<length before. dict_get (before ! idx) ''id'' = dict_get document ''id''
          \<and> (\<forall>j<idx. dict_get (before ! j) ''id'' \<noteq> dict_get document ''id'')
          \<and> (\<exists>f. after = before[idx := dict_update (before ! idx) (updated_fields f)])"
    then obtain idx f where idx: "idx < length before"
      and a: "after = before[idx := dict_update (before ! idx) (updated_fields f)]" by blast
    from k have "k \<notin> fst ` set (updated_fields f)"
      unfolding keys_updated_fields .
    then have "map_of (dict_update (before ! idx) (updated_fields f)) k = map_of (before ! idx) k"
      by (rule map_of_dict_update_other)
    with a idx j show ?thesis
      by (cases "j = idx") simp_all
  qed
  have one: "dict_get (before ! j) ''id'' = dict_get document ''id''
          \<and> (\<forall>i<j. dict_get (before ! i) ''id'' \<noteq> dict_get document ''id'')
          \<and> (\<forall>i<length before. i \<noteq> j \<longrightarrow> after ! i = before ! i)"
    if ok: "write_completes st" and j: "j < length before" and ne: "after ! j \<noteq> before ! j" for j
    using shape[OF ok]
  proof
    assume "after = before"
    with ne show ?thesis by simp
  next
    assume "\<exists>idx<length before. dict_get (before ! idx) ''id'' = dict_get document ''id''
          \<and> (\<forall>j<idx. dict_get (before ! j) ''id'' \<noteq> dict_get document ''id'')
          \<and> (\<exists>f. after = before[idx := dict_update (before ! idx) (updated_fields f)])"
    then obtain idx f where idx: "idx < length before"
      "dict_get (before ! idx) ''id'' = dict_get document ''id''"
      "\<forall>j<idx. dict_get (before ! j) ''id'' \<noteq> dict_get document ''id''"
      and a: "after = before[idx := dict_update (before ! idx) (updated_fields f)]" by blast
    from j ne a have "j = idx" by (cases "j = idx") simp_all
    with idx a show ?thesis by simp
  qed
  have quiet: "fs_after out = st"
    if "compute_fields L document = Inr f"
       "list_all (\<lambda>(key, v). dict_get document key = v) (updated_fields f)" for f
  proof -
    from that(2) have "\<not> persistence_needed document (updated_fields f)"
      by (auto simp: persistence_needed_def list_all_iff list_ex_iff)
    with that(1) show ?thesis
      by (simp add: out_def build_verification_payload_def)
  qed
  from len frame one quiet show ?thesis
    unfolding Let_def out_def[symmetric] before_def[symmetric] after_def[symmetric]
    by blast
qed

lemma example_checksum:
  "checksum_for example_lib (PStr ''INV-1234-5678'') ''02'' (PStr ''ab'') PNone = ''494E562D3132''"
  by code_simp

lemma example_signature:
  "sign_payload example_lib (signable example_fields)
     = ''6465762d7369676e696e672d7365637265745b2827636865636b73756d272c20''"
  by code_simp

lemma example_now: "utcnow example_lib = ''2024-05-01T12:00:00Z''"
  by (simp add: example_lib_def)

lemma example_png: "qr_png example_lib s = Inr ''iVBORw0KGgo=''"
  by (simp add: example_lib_def)

lemma example_compute: "compute_fields example_lib example_document = Inr example_fields"
  using example_checksum example_signature
  by (simp add: compute_fields_def example_document_def dict_get_def dict_get_default_def
      issued_at_for_def signature_for_def qr_for_def example_fields_def signable_def
      NORMALIZATION_STRATEGY_def example_now example_png generate_qr_png_base64_def
      signable_of_def example_signed_def Let_def)

lemma example_complete_eq: "example_complete =
  [(''id'', PStr ''INV-1234-5678''), (''file_hash'', PStr ''ab''),
       (''zk_commitment'', PStr ''02''),
       (''normalization_strategy'',
        PStr ''unicode_nfkc_lowercase_whitespace_collapse''),
       (''timestamp'', PStr ''2024-05-01T12:00:00Z''),
       (''checksum'', PStr ''494E562D3132''),
       (''signature'',
        PStr
          ''6465762d7369676e696e672d7365637265745b2827636865636b73756d272c20''),
       (''qr_payload'', PStr (encode_payload (json_of_dict example_signed))),
       (''qr_png_base64'', PStr ''iVBORw0KGgo='')]"
  by (simp add: example_complete_def dict_update_def updated_fields_def example_document_def example_fields_def)

lemma encode_payload_nonempty: "encode_payload (JObj kvs) \<noteq> []"
  by (cases "map of_char (encode_utf8 (json_dumps (JObj kvs))) :: nat list" rule: b64encode.cases)
     (simp_all add: encode_payload_def urlsafe_b64encode_def encode_utf8_def)

lemma example_compute_complete: "compute_fields example_lib example_complete = Inr example_fields"
  using example_signature encode_payload_nonempty[of "map (\<lambda>(k, v). (map of_char k, json_of_val v)) example_signed"]
  by (simp add: compute_fields_def example_complete_eq dict_get_def dict_get_default_def
      issued_at_for_def signature_for_def qr_for_def example_fields_def signable_def checksum_for_def
      verify_signature_def compare_digest_def is_ascii_def json_of_dict_def
       signable_of_def Let_def)

lemma example_needed: "persistence_needed example_document (updated_fields example_fields)"
  by (simp add: persistence_needed_def updated_fields_def example_document_def example_fields_def dict_get_def)

lemma example_update:
  "update_first (f_id example_fields) (updated_fields example_fields) (load_documents example_fs)
     = Some [[(''id'', PStr ''INV-0000-0001'')], example_complete]"
  by (simp add: load_documents_def example_fs_def example_complete_def dict_get_def
      example_fields_def example_document_def)

lemma example_fs_after:
  "fs_after (build_verification_payload example_lib example_document example_fs)
     = \<lparr>content = Some [[(''id'', PStr ''INV-0000-0001'')], example_complete],
        outcomes = [], attempts = 1\<rparr>"
  by (simp add: build_verification_payload_def example_compute example_needed example_update
      save_documents_def) (simp add: example_fs_def)

lemma find_in_stored:
  assumes "find_in q c ds = Inr (Some d)"
  shows "find (\<lambda>r. dict_get r ''id'' = dict_get d ''id'') ds = Some d"
  using assms
proof (induction ds)
  case Nil
  then show ?case by simp
next
  case (Cons r ds)
  show ?case
  proof (cases "r = d")
    case True
    then show ?thesis by simp
  next
    case False
    from Cons.prems obtain i where i: "dict_get_default r ''id'' (PStr []) = PStr i"
      by (auto split: pyval.splits)
    from Cons.prems False i have no: "\<not> (i = q \<or> py_upper i = c)" and rec: "find_in q c ds = Inr (Some d)"
      by (auto split: if_splits)
    from rec have "d \<in> set ds"
      using Cons.IH[OF rec] by (auto simp: find_Some_iff)
    from Cons.IH[OF rec] obtain k where "k < length ds" "ds ! k = d" by (auto simp: find_Some_iff)
    have hit: "\<exists>j. dict_get_default d ''id'' (PStr []) = PStr j \<and> (j = q \<or> py_upper j = c)"
      using rec
    proof (induction ds)
      case Nil
      then show ?case by simp
    next
      case (Cons e es)
      then show ?case by (auto split: pyval.splits if_splits)
    qed
    have "dict_get r ''id'' \<noteq> dict_get d ''id''"
    proof
      assume "dict_get r ''id'' = dict_get d ''id''"
      then have "dict_get_default r ''id'' (PStr []) = dict_get_default d ''id'' (PStr [])"
        using i hit
        by (auto simp: dict_get_def dict_get_default_def split: option.splits)
      with i hit no show False by auto
    qed
    with Cons.IH[OF rec] show ?thesis by simp
  qed
qed

lemma find_document_stored:
  "find_document st q = Inr (Some d) \<Longrightarrow> stored_record st d"
  unfolding find_document_def stored_record_def by (rule find_in_stored)

lemma completed_load:
  "load_documents completed_fs = [[(''id'', PStr ''INV-0000-0001'')], example_complete]"
  by (simp add: load_documents_def completed_fs_def)

lemma completed_stored: "stored_record completed_fs example_complete"
  by (simp add: stored_record_def completed_load dict_get_def example_complete_eq)

lemma example_same:
  "list_all (\<lambda>(key, v). dict_get example_complete key = v) (updated_fields example_fields)"
  by (simp add: example_complete_eq updated_fields_def dict_get_def example_fields_def)

text \<open>
  The amended claim on the example: the disk is sound, the first call completes the
  second record and leaves its \<open>file_hash\<close> and the first record alone; a call on the
  completed record, which is the one the file holds, writes nothing.
\<close>

theorem persist_step_frame_witness:
  "write_completes example_fs
   \<and> map_of (load_documents (fs_after (build_verification_payload example_lib example_document example_fs)) ! 1)
      ''file_hash'' = Some (PStr ''ab'')
   \<and> load_documents (fs_after (build_verification_payload example_lib example_document example_fs)) ! 0
      = [(''id'', PStr ''INV-0000-0001'')]
   \<and> stored_record completed_fs example_complete
   \<and> fs_after (build_verification_payload example_lib example_complete completed_fs) = completed_fs"
proof -
  let ?out = "build_verification_payload example_lib example_document example_fs"
  have ok: "write_completes example_fs"
    by (simp add: write_completes_def example_fs_def)
  note first = persist_step_frame[of example_lib example_document example_fs, unfolded Let_def]
  have before: "load_documents example_fs = [[(''id'', PStr ''INV-0000-0001'')], example_document]"
    by (simp add: load_documents_def example_fs_def)
  have key: "''file_hash'' \<notin> set written_keys"
    by (simp add: written_keys_def)
  from first ok have "\<forall>j<length (load_documents example_fs). \<forall>k. k \<notin> set written_keys \<longrightarrow>
      map_of (load_documents (fs_after ?out) ! j) k = map_of (load_documents example_fs ! j) k"
    by blast
  with key have a: "map_of (load_documents (fs_after ?out) ! 1) ''file_hash'' = Some (PStr ''ab'')"
    by (simp add: before example_document_def)
  have changed: "load_documents (fs_after ?out) ! 1 \<noteq> load_documents example_fs ! 1"
    unfolding example_fs_after before
    by (simp add: load_documents_def example_complete_eq example_document_def)
  have len: "(1::nat) < length (load_documents example_fs)"
    by (simp add: before)
  from first ok have "\<forall>j<length (load_documents example_fs).
      load_documents (fs_after ?out) ! j \<noteq> load_documents example_fs ! j \<longrightarrow>
      (\<forall>i<length (load_documents example_fs). i \<noteq> j \<longrightarrow>
         load_documents (fs_after ?out) ! i = load_documents example_fs ! i)"
    by blast
  with len changed have "\<forall>i<length (load_documents example_fs). i \<noteq> 1 \<longrightarrow>
         load_documents (fs_after ?out) ! i = load_documents example_fs ! i"
    by blast
  then have "load_documents (fs_after ?out) ! 0 = load_documents example_fs ! 0"
    using len by (metis less_trans zero_less_one zero_neq_one)
  then have c: "load_documents (fs_after ?out) ! 0 = [(''id'', PStr ''INV-0000-0001'')]"
    by (simp add: before)
  from persist_step_frame[of example_lib example_complete completed_fs, unfolded Let_def]
    completed_stored example_compute_complete example_same
  have e: "fs_after (build_verification_payload example_lib example_complete completed_fs) = completed_fs"
    by blast
  from ok a c completed_stored e show ?thesis by simp
qed

lemma faulty_load: "load_documents faulty_fs = load_documents example_fs"
  by (simp add: faulty_fs_def load_documents_def)

lemma faulty_update:
  "update_first (f_id example_fields) (updated_fields example_fields) (load_documents faulty_fs)
     = Some [[(''id'', PStr ''INV-0000-0001'')], example_complete]"
  using example_update by (simp add: faulty_load)

lemma completed_update:
  "update_first (f_id example_fields) (updated_fields example_fields) (load_documents completed_fs) \<noteq> None"
  by (simp add: completed_load dict_get_def example_fields_def example_complete_eq)

text \<open>
  Claim C9 as stated fails in two ways. A write that fails during the dump leaves the
  truncated file behind: the record of the other document, which the call had no reason
  to touch, is lost with the rest. And the computed values are compared with the
  caller's document, not with the file: a caller holding the record as it was before it
  was completed makes the call write although all six values equal the stored ones.
\<close>

theorem persist_step_frame_counterexample:
  "load_documents faulty_fs = [[(''id'', PStr ''INV-0000-0001'')], example_document]
   \<and> load_documents (fs_after (build_verification_payload example_lib example_document faulty_fs)) = []
   \<and> find (\<lambda>d. dict_get d ''id'' = dict_get example_document ''id'') (load_documents completed_fs)
        = Some example_complete
   \<and> compute_fields example_lib example_document = Inr example_fields
   \<and> list_all (\<lambda>(key, v). dict_get example_complete key = v) (updated_fields example_fields)
   \<and> attempts (fs_after (build_verification_payload example_lib example_document completed_fs))
        = Suc (attempts completed_fs)"
proof -
  have a: "load_documents faulty_fs = [[(''id'', PStr ''INV-0000-0001'')], example_document]"
    unfolding faulty_load by (simp add: load_documents_def example_fs_def)
  have b: "load_documents (fs_after (build_verification_payload example_lib example_document faulty_fs)) = []"
    by (simp add: build_verification_payload_def example_compute example_needed faulty_update
        save_documents_def)
       (simp add: faulty_fs_def example_fs_def load_documents_def)
  have c: "find (\<lambda>d. dict_get d ''id'' = dict_get example_document ''id'') (load_documents completed_fs)
        = Some example_complete"
    by (simp add: completed_load dict_get_def example_complete_eq example_document_def)
  from completed_update obtain ds where
    "update_first (f_id example_fields) (updated_fields example_fields) (load_documents completed_fs) = Some ds"
    by blast
  then have d: "attempts (fs_after (build_verification_payload example_lib example_document completed_fs))
        = Suc (attempts completed_fs)"
    by (simp add: build_verification_payload_def example_compute example_needed save_documents_def)
       (simp add: completed_fs_def)
  from a b c example_compute example_same d show ?thesis by simp
qed

lemma update_first_None: "update_first i upd ds = None \<longleftrightarrow> \<not> list_ex (\<lambda>d. dict_get d ''id'' = i) ds"
  by (induction ds) auto

text \<open>
  Claim C5, as amended. When the values are computed, one of them differs from the
  document's, a stored record has the document's \<open>id\<close> and the write fails, the call
  raises the storage exception instead of returning the payload, after exactly one
  attempt to write: there is no retry and no warning.
\<close>

theorem storage_fault_propagates:
  assumes "compute_fields L document = Inr f"
    and "persistence_needed document (updated_fields f)"
    and "list_ex (\<lambda>d. dict_get d ''id'' = f_id f) (load_documents st)"
    and "outcomes st = w # rest" and "w \<noteq> Written"
  shows "result (build_verification_payload L document st) = Inl OSError
       \<and> attempts (fs_after (build_verification_payload L document st)) = Suc (attempts st)
       \<and> outcomes (fs_after (build_verification_payload L document st)) = rest"
proof -
  from assms(3) obtain ds where "update_first (f_id f) (updated_fields f) (load_documents st) = Some ds"
    using update_first_None[of "f_id f" "updated_fields f" "load_documents st"] by auto
  with assms(1,2,4,5) show ?thesis
    by (cases w) (simp_all add: build_verification_payload_def save_documents_def)
qed

text \<open>
  The amended claim on the example record, on a disk whose first write fails.
\<close>

theorem storage_fault_propagates_witness:
  "result (build_verification_payload example_lib example_document faulty_fs) = Inl OSError
   \<and> attempts (fs_after (build_verification_payload example_lib example_document faulty_fs)) = 1
   \<and> outcomes (fs_after (build_verification_payload example_lib example_document faulty_fs)) = [Written]"
proof -
  have ex: "list_ex (\<lambda>d. dict_get d ''id'' = f_id example_fields) (load_documents faulty_fs)"
    using example_update update_first_None[of "f_id example_fields" "updated_fields example_fields" "load_documents example_fs"]
    by (simp add: faulty_load)
  have out: "outcomes faulty_fs = DumpFails # [Written]" and att: "attempts faulty_fs = 0"
    by (simp_all add: faulty_fs_def example_fs_def)
  from storage_fault_propagates[OF example_compute example_needed ex out] att
  show ?thesis by simp
qed

text \<open>
  Claim C5 as stated fails: on a disk whose first write fails and whose second would
  succeed, the caller receives no payload, and the write was attempted once only.
\<close>

theorem storage_fault_counterexample:
  "\<not> (\<exists>p. result (build_verification_payload example_lib example_document faulty_fs) = Inr p)
   \<and> attempts (fs_after (build_verification_payload example_lib example_document faulty_fs)) = 1
   \<and> outcomes (fs_after (build_verification_payload example_lib example_document faulty_fs)) = [Written]"
proof -
  have ex: "update_first (f_id example_fields) (updated_fields example_fields) (load_documents faulty_fs)
     = Some [[(''id'', PStr ''INV-0000-0001'')], example_complete]"
    using example_update by (simp add: faulty_load)
  show ?thesis
    by (simp add: build_verification_payload_def example_compute example_needed ex save_documents_def)
       (simp add: faulty_fs_def example_fs_def)
qed

lemma hexdigit_in: "hexdigit n \<in> set ''0123456789abcdef''"
  unfolding hexdigit_def by (rule nth_mem) simp

lemma hex_of_bytes_chars: "set (hex_of_bytes b) \<subseteq> set ''0123456789abcdef''"
  unfolding hex_of_bytes_def using hexdigit_in by auto

lemma hex_of_bytes_ascii: "is_ascii (hex_of_bytes b)"
proof -
  have "is_ascii s" if "set s \<subseteq> set ''0123456789abcdef''" for s
    using that unfolding is_ascii_def list_all_iff by auto
  then show ?thesis using hex_of_bytes_chars by blast
qed

lemma sign_payload_not_tampered: "sign_payload L p \<noteq> ''tampered''"
proof
  assume "sign_payload L p = ''tampered''"
  then have "CHR ''t'' \<in> set (sign_payload L p)" by simp
  then show False
    using hex_of_bytes_chars unfolding sign_payload_def by fastforce
qed

lemma example_tampered_eq: "example_tampered =
  [(''id'', PStr ''INV-1234-5678''), (''file_hash'', PStr ''ab''),
       (''zk_commitment'', PStr ''02''),
       (''normalization_strategy'',
        PStr ''unicode_nfkc_lowercase_whitespace_collapse''),
       (''timestamp'', PStr ''2024-05-01T12:00:00Z''),
       (''checksum'', PStr ''494E562D3132''),
       (''signature'', PStr ''tampered''),
       (''qr_payload'', PStr (encode_payload (json_of_dict
            (signable example_fields @ [(''signature'', PStr ''tampered'')])))),
       (''qr_png_base64'', PStr ''iVBORw0KGgo='')]"
  by (simp add: example_tampered_def example_complete_eq dict_update_def)

lemma example_signable: "signable example_fields =
   signable_of (PStr ''INV-1234-5678'') (PStr ''ab'') ''2024-05-01T12:00:00Z''
         (PStr ''unicode_nfkc_lowercase_whitespace_collapse'') ''02'' ''494E562D3132''"
  by (simp add: signable_def example_fields_def)

lemma tampered_compute:
  "compute_fields L example_tampered =
      Inr (example_fields\<lparr>f_signature := sign_payload L (signable example_fields),
             f_qr_payload := encode_payload (json_of_dict
                (signable example_fields @ [(''signature'', PStr ''tampered'')]))\<rparr>)"
  using sign_payload_not_tampered[of L "signable example_fields"]
    hex_of_bytes_ascii encode_payload_nonempty
  by (simp add: compute_fields_def example_tampered_eq dict_get_def dict_get_default_def
      issued_at_for_def signature_for_def qr_for_def checksum_for_def
      verify_signature_def compare_digest_def Let_def example_signable[symmetric]
      json_of_dict_def)
    (simp add: example_fields_def is_ascii_def sign_payload_def)

text \<open>
  Claim C4 fails on the code. The stored signature of \<open>example_tampered\<close> does not
  verify, so the call returns a recomputed signature; the QR payload it returns is the
  stored one, which encodes the field set with the old signature \<open>tampered\<close>, not with the
  signature returned. This holds for every hash function, clock and secret.
\<close>

theorem stale_qr_after_resigning:
  "\<exists>p. result (build_verification_payload L example_tampered tampered_fs) = Inr p
     \<and> p_signature p = sign_payload L (signable example_fields)
     \<and> p_signature p \<noteq> ''tampered''
     \<and> p_qr_payload p = encode_payload (json_of_dict
           (signable example_fields @ [(''signature'', PStr ''tampered'')]))"
proof -
  let ?f = "example_fields\<lparr>f_signature := sign_payload L (signable example_fields),
             f_qr_payload := encode_payload (json_of_dict
                (signable example_fields @ [(''signature'', PStr ''tampered'')]))\<rparr>"
  have needed: "persistence_needed example_tampered (updated_fields ?f)"
    using sign_payload_not_tampered[of L "signable example_fields"]
    by (simp add: persistence_needed_def updated_fields_def example_tampered_eq dict_get_def)
  have upd: "\<exists>ds. update_first (f_id ?f) (updated_fields ?f) (load_documents tampered_fs) = Some ds"
    by (simp add: tampered_fs_def load_documents_def example_tampered_eq dict_get_def example_fields_def)
  have mk: "\<exists>p. make_payload ?f = Inr p \<and> p_signature p = sign_payload L (signable example_fields)
     \<and> p_qr_payload p = encode_payload (json_of_dict
           (signable example_fields @ [(''signature'', PStr ''tampered'')]))"
    by (simp add: make_payload_def example_fields_def)
  from upd obtain ds where "update_first (f_id ?f) (updated_fields ?f) (load_documents tampered_fs) = Some ds"
    by blast
  then have "result (build_verification_payload L example_tampered tampered_fs) = make_payload ?f"
    using needed
    by (simp add: build_verification_payload_def tampered_compute save_documents_def tampered_fs_def)
  with mk sign_payload_not_tampered[of L "signable example_fields"] show ?thesis
    by auto
qed

section \<open>Theorems: the proof verifier\<close>

lemma generator_on_curve:
  "contains_point 0x79BE667EF9DCBBAC55A06295CE870B07029BFCDB2DCE28D959F2815B16F81798
                  0x483ADA7726A3C4655DA4FBFC0E1108A8FD17B448A68554199C47D08FFB10D4B8"
proof -
  have "(0x483ADA7726A3C4655DA4FBFC0E1108A8FD17B448A68554199C47D08FFB10D4B8 :: int)
          * 0x483ADA7726A3C4655DA4FBFC0E1108A8FD17B448A68554199C47D08FFB10D4B8
        - (0x79BE667EF9DCBBAC55A06295CE870B07029BFCDB2DCE28D959F2815B16F81798
            * 0x79BE667EF9DCBBAC55A06295CE870B07029BFCDB2DCE28D959F2815B16F81798
            * 0x79BE667EF9DCBBAC55A06295CE870B07029BFCDB2DCE28D959F2815B16F81798 + 7)
        = (-1442042049659660869506300006036683750029629333882594701370927246876626245108435922902327776681700708714008192087431130951749952236093997894375239788520937) * curve_p"
    unfolding curve_p_def by simp
  then show ?thesis
    unfolding contains_point_def by (simp only: mod_mult_self2_is_0)
qed

lemma generator_fromhex: "fromhex generator_hex = Inr generator_bytes"
  by code_simp

lemma generator_x:
  "from_bytes (take 32 (tl generator_bytes))
     = 0x79BE667EF9DCBBAC55A06295CE870B07029BFCDB2DCE28D959F2815B16F81798"
  by (simp add: generator_bytes_def from_bytes_def)

lemma generator_y:
  "from_bytes (drop 32 (tl generator_bytes))
     = 0x483ADA7726A3C4655DA4FBFC0E1108A8FD17B448A68554199C47D08FFB10D4B8"
  by (simp add: generator_bytes_def from_bytes_def)

lemma generator_from_string: "from_string generator_bytes = Inr GENERATOR"
proof -
  have len: "length generator_bytes = 65" and tag: "(of_char (hd generator_bytes) :: nat) = 4"
    by (simp_all add: generator_bytes_def)
  have "checked_point 0x79BE667EF9DCBBAC55A06295CE870B07029BFCDB2DCE28D959F2815B16F81798
          0x483ADA7726A3C4655DA4FBFC0E1108A8FD17B448A68554199C47D08FFB10D4B8 = Inr GENERATOR"
    using generator_on_curve by (simp add: checked_point_def GENERATOR_def curve_p_def)
  then show ?thesis
    by (simp add: from_string_def len tag generator_x generator_y Let_def)
qed

lemma generator_parses: "commitment_parses generator_hex"
  by (simp add: commitment_parses_def generator_fromhex generator_from_string)

lemma int16_minus_one: "int16 ''-1'' = Some (- 1)"
  by code_simp

lemma int16_zero: "int16 ''0'' = Some 0"
  by code_simp

lemma payload_negative:
  "from_payload [(''rx'', ''-1''), (''ry'', ''0''), (''s'', ''0'')]
     = Inr \<lparr>proof_rx = - 1, proof_ry = 0, proof_s = 0\<rparr>"
  by (simp add: from_payload_def int16_minus_one int16_zero)

lemma payload_origin:
  "from_payload [(''rx'', ''0''), (''ry'', ''0''), (''s'', ''0'')]
     = Inr \<lparr>proof_rx = 0, proof_ry = 0, proof_s = 0\<rparr>"
  by (simp add: from_payload_def int16_zero)

lemma challenge_negative:
  "fromhex commitment_hex = Inr b \<Longrightarrow>
   challenge L \<lparr>proof_rx = - 1, proof_ry = 0, proof_s = 0\<rparr> commitment_hex document_id context
     = Inl OverflowError"
  by (simp add: challenge_def to_bytes32_def)

lemma challenge_origin:
  "fromhex commitment_hex = Inr b \<Longrightarrow>
   \<exists>c. challenge L \<lparr>proof_rx = 0, proof_ry = 0, proof_s = 0\<rparr> commitment_hex document_id context
     = Inr c"
  by (simp add: challenge_def to_bytes32_def)

lemma origin_off_curve: "to_point \<lparr>proof_rx = 0, proof_ry = 0, proof_s = 0\<rparr> = Inl AssertionError"
  by (simp add: to_point_def contains_point_def curve_p_def)

text \<open>
  Claim C1 fails on the code. For every commitment that parses, a proof payload whose
  \<open>rx\<close> is the number \<open>-1\<close> makes \<open>verify_schnorr_proof\<close> raise \<open>OverflowError\<close> (from
  \<open>to_bytes\<close> in the challenge), and one whose point \<open>(0, 0)\<close> is not on the curve makes it
  raise \<open>AssertionError\<close> (from the constructor of \<open>Point\<close>): both computations stand outside
  the \<open>try\<close> blocks. A commitment that does not parse gives \<open>False\<close>, as the claim says. The
  encoding of the generator is a commitment that parses.
\<close>

theorem verify_schnorr_proof_raises:
  "verify_schnorr_proof L commitment_hex document_id
       [(''rx'', ''-1''), (''ry'', ''0''), (''s'', ''0'')] context
     = (if commitment_parses commitment_hex then Inl OverflowError else Inr False)
   \<and> verify_schnorr_proof L commitment_hex document_id
       [(''rx'', ''0''), (''ry'', ''0''), (''s'', ''0'')] context
     = (if commitment_parses commitment_hex then Inl AssertionError else Inr False)
   \<and> commitment_parses generator_hex"
proof -
  have a: "verify_schnorr_proof L commitment_hex document_id
       [(''rx'', ''-1''), (''ry'', ''0''), (''s'', ''0'')] context
     = (if commitment_parses commitment_hex then Inl OverflowError else Inr False)"
  proof (cases "fromhex commitment_hex")
    case (Inl e)
    then show ?thesis by (simp add: verify_schnorr_proof_def commitment_parses_def)
  next
    case (Inr b)
    show ?thesis
    proof (cases "from_string b")
      case (Inl e)
      with Inr show ?thesis by (simp add: verify_schnorr_proof_def commitment_parses_def)
    next
      case key: (Inr k)
      from Inr key challenge_negative[OF Inr, of L document_id "context"] show ?thesis
        by (simp add: verify_schnorr_proof_def commitment_parses_def payload_negative)
    qed
  qed
  have b: "verify_schnorr_proof L commitment_hex document_id
       [(''rx'', ''0''), (''ry'', ''0''), (''s'', ''0'')] context
     = (if commitment_parses commitment_hex then Inl AssertionError else Inr False)"
  proof (cases "fromhex commitment_hex")
    case (Inl e)
    then show ?thesis by (simp add: verify_schnorr_proof_def commitment_parses_def)
  next
    case (Inr b)
    show ?thesis
    proof (cases "from_string b")
      case (Inl e)
      with Inr show ?thesis by (simp add: verify_schnorr_proof_def commitment_parses_def)
    next
      case key: (Inr k)
      from challenge_origin[OF Inr, of L document_id "context"] obtain c where
        "challenge L \<lparr>proof_rx = 0, proof_ry = 0, proof_s = 0\<rparr> commitment_hex document_id context = Inr c"
        by blast
      with Inr key show ?thesis
        by (simp add: verify_schnorr_proof_def commitment_parses_def payload_origin origin_off_curve)
    qed
  qed
  from a b generator_parses show ?thesis by simp
qed

section \<open>Theorems: the content canonicalizer\<close>

text \<open>
  Claim C8 fails on the code. \<open>str.lower\<close> maps \<open>U+0130\<close> to \<open>U+0069 U+0307\<close>, so the
  lowered text of \<open>U+0130 U+0327\<close> is no longer normalized: a second call reorders the
  two combining marks. For every Unicode library that maps the three strings as CPython
  does, \<open>normalize_text\<close> of the result differs from the result.
\<close>

theorem normalize_text_not_idempotent:
  assumes "normalize_nfkc U [0x130, 0x327] = [0x130, 0x327]"
    and "str_lower U [0x130, 0x327] = [0x69, 0x307, 0x327]"
    and "normalize_nfkc U [0x69, 0x307, 0x327] = [0x69, 0x327, 0x307]"
    and "str_lower U [0x69, 0x327, 0x307] = [0x69, 0x327, 0x307]"
  shows "normalize_text U [0x130, 0x327] = [0x69, 0x307, 0x327]
       \<and> normalize_text U (normalize_text U [0x130, 0x327]) = [0x69, 0x327, 0x307]
       \<and> normalize_text U (normalize_text U [0x130, 0x327]) \<noteq> normalize_text U [0x130, 0x327]"
proof -
  have first: "normalize_text U [0x130, 0x327] = [0x69, 0x307, 0x327]"
    using assms(1,2)
    by (simp add: normalize_text_def strip_whitespace_def is_whitespace_def)
  have second: "normalize_text U [0x69, 0x307, 0x327] = [0x69, 0x327, 0x307]"
    using assms(3,4)
    by (simp add: normalize_text_def strip_whitespace_def is_whitespace_def)
  from first second show ?thesis by simp
qed

text \<open>The stand-in library satisfies the four assumptions.\<close>

theorem normalize_text_not_idempotent_witness:
  "normalize_text example_unicode [0x130, 0x327] = [0x69, 0x307, 0x327]
   \<and> normalize_text example_unicode (normalize_text example_unicode [0x130, 0x327])
        = [0x69, 0x327, 0x307]"
proof -
  have "normalize_nfkc example_unicode [0x130, 0x327] = [0x130, 0x327]"
    "str_lower example_unicode [0x130, 0x327] = [0x69, 0x307, 0x327]"
    "normalize_nfkc example_unicode [0x69, 0x307, 0x327] = [0x69, 0x327, 0x307]"
    "str_lower example_unicode [0x69, 0x327, 0x307] = [0x69, 0x327, 0x307]"
    by (simp_all add: example_unicode_def)
  from normalize_text_not_idempotent[OF this] show ?thesis by blast
qed

end
